theory Spec2Isabelle
  imports Complex_Main "HOL-Library.AList"
begin

section \<open>Python values, exceptions and the outside world\<close>

text \<open>
  The adapters handle dynamically typed data: decoded JSON bodies, credential values,
  SDK attributes. One datatype of Python values covers them. \<open>PNone\<close> is both Python's
  \<open>None\<close> and JSON's \<open>null\<close>; a dictionary is an association list in insertion order,
  read through \<open>map_of\<close>. A \<open>char\<close> of a \<open>string\<close> stands for one unit of a Python
  \<open>str\<close>, the unit that slicing counts.
\<close>

datatype pyval =
    PNone
  | PBool bool
  | PInt int
  | PFloat real
  | PStr string
  | PList "pyval list"
  | PDict "(string \<times> pyval) list"

text \<open>Truth value testing, as \<open>if x\<close> and \<open>x and y\<close> do it.\<close>

fun truthy :: "pyval \<Rightarrow> bool" where
  "truthy PNone = False"
| "truthy (PBool b) = b"
| "truthy (PInt i) = (i \<noteq> 0)"
| "truthy (PFloat r) = (r \<noteq> 0)"
| "truthy (PStr s) = (s \<noteq> [])"
| "truthy (PList xs) = (xs \<noteq> [])"
| "truthy (PDict kvs) = (kvs \<noteq> [])"

fun type_name :: "pyval \<Rightarrow> string" where
  "type_name PNone = ''NoneType''"
| "type_name (PBool b) = ''bool''"
| "type_name (PInt i) = ''int''"
| "type_name (PFloat r) = ''float''"
| "type_name (PStr s) = ''str''"
| "type_name (PList xs) = ''list''"
| "type_name (PDict kvs) = ''dict''"

definition opt_str :: "string option \<Rightarrow> pyval" where
  "opt_str x = (case x of None \<Rightarrow> PNone | Some s \<Rightarrow> PStr s)"

definition opt_float :: "real option \<Rightarrow> pyval" where
  "opt_float x = (case x of None \<Rightarrow> PNone | Some r \<Rightarrow> PFloat r)"

definition quoted :: "string \<Rightarrow> string" where
  "quoted s = [CHR 0x27] @ s @ [CHR 0x27]"

text \<open>
  The exceptions that can travel through the adapters. Every constructor is a subclass of
  Python's \<open>Exception\<close>. \<open>JSONDecodeError\<close> is a subclass of \<open>ValueError\<close>.
  \<open>TransactionDeclined\<close> carries what its handler reads: \<open>error.transaction.status_code\<close>,
  \<open>error.http_code\<close> and \<open>error.transaction.status_message\<close>. \<open>PayloadError\<close> is an
  instance of one of the eight SDK classes that the adapters list in one \<open>except\<close> clause
  (or of a subclass of one): it carries \<open>type(error).__name__\<close>, the attribute
  \<open>response\<close> when the object has one, and \<open>error.__dict__\<close>.
\<close>

datatype exn =
    ValueError string
  | JSONDecodeError string
  | TypeError string
  | KeyError string
  | AttributeError string
  | RequestException string
  | TransactionDeclined pyval pyval pyval
  | PayloadError string "pyval option" pyval
  | OtherException string

fun exn_str :: "exn \<Rightarrow> string" where
  "exn_str (ValueError m) = m"
| "exn_str (JSONDecodeError m) = m"
| "exn_str (TypeError m) = m"
| "exn_str (KeyError k) = quoted k"
| "exn_str (AttributeError m) = m"
| "exn_str (RequestException m) = m"
| "exn_str (TransactionDeclined c h m) = ''TransactionDeclined''"
| "exn_str (PayloadError n r d) = n"
| "exn_str (OtherException m) = m"

text \<open>\<open>except Exception\<close> catches every exception of the model.\<close>

fun is_Exception :: "exn \<Rightarrow> bool" where
  "is_Exception (ValueError m) = True"
| "is_Exception (JSONDecodeError m) = True"
| "is_Exception (TypeError m) = True"
| "is_Exception (KeyError k) = True"
| "is_Exception (AttributeError m) = True"
| "is_Exception (RequestException m) = True"
| "is_Exception (TransactionDeclined c h m) = True"
| "is_Exception (PayloadError n r d) = True"
| "is_Exception (OtherException m) = True"

fun is_ValueError :: "exn \<Rightarrow> bool" where
  "is_ValueError (ValueError m) = True"
| "is_ValueError (JSONDecodeError m) = True"
| "is_ValueError e = False"

text \<open>\<open>d.get(k, None)\<close> and \<open>d[k]\<close> on a decoded body.\<close>

definition dict_get :: "(string \<times> pyval) list \<Rightarrow> string \<Rightarrow> pyval" where
  "dict_get d k = (case map_of d k of None \<Rightarrow> PNone | Some v \<Rightarrow> v)"

definition no_get :: "pyval \<Rightarrow> exn" where
  "no_get v = AttributeError (quoted (type_name v) @ '' object has no attribute '' @ quoted ''get'')"

fun py_item :: "pyval \<Rightarrow> string \<Rightarrow> exn + pyval" where
  "py_item (PDict d) k = (case map_of d k of None \<Rightarrow> Inl (KeyError k) | Some v \<Rightarrow> Inr v)"
| "py_item (PStr s) k = Inl (TypeError ''string indices must be integers'')"
| "py_item (PList xs) k = Inl (TypeError ''list indices must be integers or slices, not str'')"
| "py_item v k = Inl (TypeError (quoted (type_name v) @ '' object is not subscriptable''))"

text \<open>\<open>message += s\<close> where \<open>message\<close> is \<open>None\<close> or a \<open>str\<close>.\<close>

definition str_iadd :: "string option \<Rightarrow> string \<Rightarrow> exn + string option" where
  "str_iadd m s =
     (case m of
        None \<Rightarrow> Inl (TypeError (''unsupported operand type(s) for +=: '' @ quoted ''NoneType'' @ '' and '' @ quoted ''str''))
      | Some t \<Rightarrow> Inr (Some (t @ s)))"

record response =
  status_code :: int
  resp_text :: string

text \<open>
  \<open>requests.post(url, json=data, auth=HTTPBasicAuth(usr, pwd))\<close> and
  \<open>requests.get(url, auth=HTTPBasicAuth(usr, pwd))\<close>.
\<close>

datatype http_call =
    POST string pyval "pyval \<times> pyval"
  | GET string "pyval \<times> pyval"

text \<open>An object the SDK returns, by the attributes the adapter reads.\<close>

record pl_object =
  obj_id :: pyval
  obj_status :: pyval
  obj_status_code :: pyval
  obj_status_message :: pyval
  obj_funding_status :: pyval
  obj_amount :: pyval

text \<open>
  The calls of the Payload SDK, with the arguments the adapter passes:
  \<open>pl.Payment.create(amount, payment_method=pl.Card(...), processing_id, description)\<close>,
  \<open>pl.Payment.get(id)\<close>, \<open>pl.Transaction.get(id)\<close>,
  \<open>refund_object.update(status, description)\<close> on the object fetched before, and
  \<open>pl.Refund.create(amount, ledger=[{"assoc_transaction_id": id}], description)\<close>.
\<close>

record card =
  account_holder :: pyval
  card_number :: pyval
  expiry :: pyval
  card_code :: pyval

datatype pl_call =
    Payment_create real card pyval pyval
  | Payment_get string
  | Transaction_get string
  | Transaction_update pl_object string pyval
  | Refund_create pyval string pyval


text \<open>
  Everything outside the repository is a parameter: the JSON decoder, Python's \<open>str()\<close>
  on a value that is not a \<open>str\<close>, the HTTP upstream behind \<open>requests\<close> and the Payload
  SDK. An upstream answers a call with a reply or raises. \<open>declined_is_BadRequest\<close>
  says whether the SDK declares \<open>TransactionDeclined\<close> as a subclass of \<open>BadRequest\<close>.
\<close>

record world =
  json_loads :: "string \<Rightarrow> exn + pyval"
  str_of :: "pyval \<Rightarrow> string"
  requests :: "http_call \<Rightarrow> exn + response"
  payload_api :: "pl_call \<Rightarrow> exn + pl_object"
  declined_is_BadRequest :: bool

definition py_str :: "world \<Rightarrow> pyval \<Rightarrow> string" where
  "py_str w v = (case v of PStr s \<Rightarrow> s | _ \<Rightarrow> str_of w v)"

text \<open>\<open>requests.Response.__bool__\<close> is \<open>ok\<close>: the status is no 4xx and no 5xx.\<close>

definition response_ok :: "response \<Rightarrow> bool" where
  "response_ok r = (\<not> (400 \<le> status_code r \<and> status_code r < 600))"

section \<open>schema.py\<close>

record Payment =
  p_gatewayTypeId :: int
  p_gatewayTypeName :: string
  p_merchantAccountId :: int
  p_credentials :: "string \<rightharpoonup> pyval"
  p_account :: string
  p_expDate :: string
  p_amount :: real
  p_userId :: int
  p_cvv2 :: string
  p_currencyType :: int
  p_name :: "string option"
  p_street :: "string option"
  p_city :: "string option"
  p_state :: "string option"
  p_zip :: "string option"
  p_country :: "string option"
  p_comment :: "string option"
  p_userName :: "string option"

record Refund =
  r_gatewayTypeId :: int
  r_gatewayTypeName :: string
  r_merchantAccountId :: int
  r_credentials :: "string \<rightharpoonup> pyval"
  r_paymentTransactionId :: string
  r_userId :: int
  r_comment :: "string option"
  r_amount :: "real option"
  r_maskedCardNumber :: "string option"
  r_currencyType :: "int option"




text \<open>\<open>CurrencyCode(code).name\<close>: a code outside the enumeration raises \<open>ValueError\<close>.\<close>

definition CurrencyCode_name :: "world \<Rightarrow> int \<Rightarrow> exn + string" where
  "CurrencyCode_name w c =
     (if c = 840 then Inr ''USD''
      else if c = 124 then Inr ''CAD''
      else if c = 826 then Inr ''GBP''
      else if c = 978 then Inr ''EUR''
      else Inl (ValueError (py_str w (PInt c) @ '' is not a valid CurrencyCode'')))"

text \<open>\<open>GatewayResponses.__members__\<close> and \<open>GatewayResponses[name].value\<close>.\<close>

definition GatewayResponses :: "(string \<times> int) list" where
  "GatewayResponses =
     [(''Approved'', 200), (''BadRequest'', 400), (''Unauthorized'', 401), (''Forbidden'', 403),
      (''NotFound'', 404), (''Conflict'', 409), (''InvalidAttributes'', 422),
      (''TooManyRequests'', 429), (''InternalServerError'', 500), (''ServiceUnavailable'', 503)]"

text \<open>The dictionary both adapters return.\<close>

record CanonicalResult =
  res_success :: bool
  res_transactionId :: pyval
  res_statusCode :: pyval
  res_gatewayHttpStatusCode :: pyval
  res_responseMessage :: pyval
  res_merchantAccountId :: int
  res_gatewayResponseData :: pyval

section \<open>gateways/cardconnect.py\<close>

record CardConnectProcessor =
  usr :: pyval
  pwd :: pyval
  merchantId :: pyval
  authEndPoint :: string
  inquireEndpointBaseUrl :: string
  voidEndpoint :: string
  refundEndpoint :: string



text \<open>
  The local variables of \<open>process_payment\<close> and \<open>process_refund\<close>. \<open>transaction_id\<close> is
  \<open>payment_transaction_id\<close> or \<open>refund_transaction_id\<close>, \<open>success\<close> is \<open>payment_success\<close>
  or \<open>refund_success\<close>, \<open>inquiry_resp\<close> is \<open>response\<close> in \<open>process_payment\<close> and
  \<open>payment_status_response\<close> in \<open>process_refund\<close>. \<open>issued\<close> records the calls made
  through \<open>requests\<close>, in order. The calls to \<open>print\<close> are left out.
\<close>

record cc_locals =
  transaction_id :: pyval
  http_status_code :: int
  success :: bool
  message :: "string option"
  gateway_response_data :: "pyval list"
  inquiry_resp :: "response option"
  void_resp :: "response option"
  refund_response :: "response option"
  issued :: "http_call list"

definition cc_initial :: cc_locals where
  "cc_initial =
     \<lparr>transaction_id = PNone, http_status_code = 200, success = False, message = None,
      gateway_response_data = [], inquiry_resp = None, void_resp = None,
      refund_response = None, issued = []\<rparr>"

definition append_json_or_string_to_array :: "world \<Rightarrow> string \<Rightarrow> pyval list \<Rightarrow> pyval list" where
  "append_json_or_string_to_array w json_or_string array =
     (case json_loads w json_or_string of
        Inr string_converted_to_json \<Rightarrow> array @ [string_converted_to_json]
      | Inl (JSONDecodeError m) \<Rightarrow>
          array @ [PStr (''error decoding string into json: '' @ m), PStr json_or_string]
      | Inl err \<Rightarrow>
          array @ [PStr (''error converting string into json: '' @ exn_str err),
                   PStr json_or_string])"

text \<open>\<open>if resp and resp.text: gateway_response_data = append_json_or_string_to_array(...)\<close>\<close>

definition append_response_text :: "world \<Rightarrow> response option \<Rightarrow> pyval list \<Rightarrow> pyval list" where
  "append_response_text w resp array =
     (case resp of
        None \<Rightarrow> array
      | Some r \<Rightarrow>
          (if response_ok r \<and> resp_text r \<noteq> []
           then append_json_or_string_to_array w (resp_text r) array
           else array))"

subsection \<open>process_payment\<close>

text \<open>The request body of lines 122 to 145, for a currency symbol already looked up.\<close>

definition auth_data :: "CardConnectProcessor \<Rightarrow> Payment \<Rightarrow> string \<Rightarrow> (string \<times> pyval) list" where
  "auth_data self payment currency =
     (let data0 =
            [(''merchid'', merchantId self),
             (''account'', PStr (p_account payment)),
             (''expiry'', PStr (p_expDate payment)),
             (''amount'', PFloat (p_amount payment)),
             (''capture'', PStr ''Y''),
             (''cvv2'', PStr (p_cvv2 payment)),
             (''currency'', PStr currency),
             (''name'', opt_str (p_name payment)),
             (''ecomind'', PStr ''E'')];
          data1 =
            (if truthy (opt_str (p_zip payment)) \<and> opt_str (p_zip payment) \<noteq> PStr []
             then AList.update ''postal'' (opt_str (p_zip payment)) data0 else data0);
          data2 =
            (if truthy (opt_str (p_name payment)) \<and> opt_str (p_name payment) \<noteq> PStr []
             then AList.update ''name'' (opt_str (p_name payment)) data1 else data1);
          description =
            (if truthy (opt_str (p_comment payment)) then opt_str (p_comment payment)
             else PStr [])
      in AList.update ''userfields'' (PList [PDict [(''Description'', description)]]) data2)"

definition auth_call :: "CardConnectProcessor \<Rightarrow> Payment \<Rightarrow> string \<Rightarrow> http_call" where
  "auth_call self payment currency =
     POST (authEndPoint self) (PDict (auth_data self payment currency)) (usr self, pwd self)"

text \<open>Lines 155 to 180: the decoded body of a 200 answer of the auth endpoint.\<close>

definition interpret_auth :: "world \<Rightarrow> pyval \<Rightarrow> cc_locals \<Rightarrow> exn option \<times> cc_locals" where
  "interpret_auth w response_as_json v =
     (case response_as_json of
        PDict d \<Rightarrow>
          (let respstat = dict_get d ''respstat'';
               resptext = dict_get d ''resptext'';
               retref = dict_get d ''retref'';
               v1 =
                 (if truthy respstat \<and> respstat = PStr ''A''
                  then v\<lparr>success := True, message := Some ''Success.''\<rparr>
                  else
                    (let m = (if truthy respstat \<and> respstat = PStr ''B''
                              then ''Please retry the request.'' else ''Authorization failed.'');
                         m' = (if truthy resptext then m @ '' '' @ py_str w resptext @ ''.'' else m)
                     in v\<lparr>success := False, http_status_code := 400, message := Some m'\<rparr>))
           in (None, if truthy retref then v1\<lparr>transaction_id := retref\<rparr> else v1))
      | _ \<Rightarrow> (Some (no_get response_as_json), v))"

definition process_payment_try ::
  "world \<Rightarrow> CardConnectProcessor \<Rightarrow> Payment \<Rightarrow> cc_locals \<Rightarrow> exn option \<times> cc_locals" where
  "process_payment_try w self payment v0 =
     (case CurrencyCode_name w (p_currencyType payment) of
        Inl e \<Rightarrow> (Some e, v0)
      | Inr currency \<Rightarrow>
          (let call = auth_call self payment currency;
               v1 = v0\<lparr>issued := issued v0 @ [call]\<rparr>
           in case requests w call of
                Inl e \<Rightarrow> (Some e, v1)
              | Inr resp \<Rightarrow>
                  (let v2 = v1\<lparr>inquiry_resp := Some resp\<rparr> in
                   if status_code resp = 200 then
                     (case json_loads w (resp_text resp) of
                        Inl e \<Rightarrow> (Some e, v2)
                      | Inr response_as_json \<Rightarrow>
                          interpret_auth w response_as_json
                            (v2\<lparr>gateway_response_data :=
                                  gateway_response_data v2 @ [response_as_json]\<rparr>))
                   else if status_code resp = 401 then
                     (None, v2\<lparr>gateway_response_data :=
                                  append_json_or_string_to_array w (resp_text resp)
                                    (gateway_response_data v2),
                                success := False,
                                http_status_code := status_code resp,
                                message :=
                                  Some ''There was an authorization error with your request.''\<rparr>)
                   else
                     (None, v2\<lparr>gateway_response_data :=
                                  append_json_or_string_to_array w (resp_text resp)
                                    (gateway_response_data v2),
                                success := False,
                                http_status_code := status_code resp,
                                message :=
                                  Some ''There was a network error with your request.''\<rparr>))))"

definition process_payment_except :: "world \<Rightarrow> exn \<Rightarrow> cc_locals \<Rightarrow> cc_locals" where
  "process_payment_except w e v =
     (let exception_message = ''process_payment exception: '' @ exn_str e;
          gd = gateway_response_data v @ [PStr exception_message]
      in v\<lparr>gateway_response_data := append_response_text w (inquiry_resp v) gd,
           http_status_code := 500,
           message := Some ''There was an internal service error with your request.''\<rparr>)"

definition cc_finally :: "int \<Rightarrow> cc_locals \<Rightarrow> CanonicalResult" where
  "cc_finally merchant_account_id v =
     \<lparr>res_success = success v,
      res_transactionId = transaction_id v,
      res_statusCode = PInt (http_status_code v),
      res_gatewayHttpStatusCode = PInt (http_status_code v),
      res_responseMessage = opt_str (message v),
      res_merchantAccountId = merchant_account_id,
      res_gatewayResponseData = PList (gateway_response_data v)\<rparr>"

text \<open>
  \<open>try: ... except Exception as e: ... finally: ...\<close> followed by \<open>return\<close>: an exception
  that the \<open>except\<close> clause does not catch leaves the method after the \<open>finally\<close> block,
  and the \<open>return\<close> is not reached. The second component is the list of calls issued.
\<close>

definition try_except_Exception ::
  "exn option \<times> cc_locals \<Rightarrow> (exn \<Rightarrow> cc_locals \<Rightarrow> cc_locals) \<Rightarrow> exn option \<times> cc_locals" where
  "try_except_Exception body handler =
     (case body of
        (None, v) \<Rightarrow> (None, v)
      | (Some e, v) \<Rightarrow> (if is_Exception e then (None, handler e v) else (Some e, v)))"

definition cc_return ::
  "int \<Rightarrow> exn option \<times> cc_locals \<Rightarrow> (exn + CanonicalResult) \<times> http_call list" where
  "cc_return merchant_account_id r =
     (case r of
        (None, v) \<Rightarrow> (Inr (cc_finally merchant_account_id v), issued v)
      | (Some e, v) \<Rightarrow> (Inl e, issued v))"

definition CardConnect_process_payment ::
  "world \<Rightarrow> CardConnectProcessor \<Rightarrow> Payment \<Rightarrow> (exn + CanonicalResult) \<times> http_call list" where
  "CardConnect_process_payment w self payment =
     cc_return (p_merchantAccountId payment)
       (try_except_Exception (process_payment_try w self payment cc_initial)
          (process_payment_except w))"

subsection \<open>process_refund\<close>

text \<open>
  Lines 263 to 307: the decoded body of a 200 answer of the void endpoint. In the last
  branch the source has the bare expression \<open>'Void transaction was declined.'\<close> where an
  assignment to \<open>message\<close> was meant, so \<open>message\<close> is still \<open>None\<close> when \<open>+=\<close> runs.
\<close>

definition interpret_void :: "world \<Rightarrow> pyval \<Rightarrow> cc_locals \<Rightarrow> exn option \<times> cc_locals" where
  "interpret_void w void_resp_json v =
     (case void_resp_json of
        PDict d \<Rightarrow>
          (let respstat = dict_get d ''respstat'';
               authcode = dict_get d ''authcode'';
               approved = (truthy respstat \<and> respstat = PStr ''A'');
               r =
                 (if approved \<and> truthy authcode \<and> authcode = PStr ''REVERS'' then
                    (None, v\<lparr>success := True,
                              message := Some ''Successfully voided transaction.''\<rparr>)
                  else if approved \<and> truthy authcode \<and> authcode = PStr ''NULL'' then
                    (let v1 = v\<lparr>message := Some ''Void transaction was unsuccessful.''\<rparr> in
                     case py_item void_resp_json ''resptext'' of
                       Inl e \<Rightarrow> (Some e, v1)
                     | Inr error_resp_txt \<Rightarrow>
                         (case str_iadd (message v1) ('' '' @ py_str w error_resp_txt) of
                            Inl e \<Rightarrow> (Some e, v1)
                          | Inr m \<Rightarrow> (None, v1\<lparr>message := m, http_status_code := 400\<rparr>)))
                  else if \<not> truthy authcode \<and> truthy respstat \<and> respstat = PStr ''A'' then
                    (None, v\<lparr>success := True, message := Some ''success''\<rparr>)
                  else
                    (let v1 = (if truthy respstat \<and> respstat = PStr ''B''
                               then v\<lparr>message := Some ''Unable to complete void transaction.''\<rparr>
                               else v) in
                     case py_item void_resp_json ''resptext'' of
                       Inl e \<Rightarrow> (Some e, v1)
                     | Inr error_resp_txt \<Rightarrow>
                         (case str_iadd (message v1) ('' '' @ py_str w error_resp_txt) of
                            Inl e \<Rightarrow> (Some e, v1)
                          | Inr m \<Rightarrow> (None, v1\<lparr>message := m, http_status_code := 409\<rparr>))))
           in case r of
                (Some e, v2) \<Rightarrow> (Some e, v2)
              | (None, v2) \<Rightarrow>
                  (case py_item void_resp_json ''retref'' of
                     Inl e \<Rightarrow> (Some e, v2)
                   | Inr retref \<Rightarrow> (None, v2\<lparr>transaction_id := retref\<rparr>)))
      | _ \<Rightarrow> (Some (no_get void_resp_json), v))"

definition void_data :: "CardConnectProcessor \<Rightarrow> Refund \<Rightarrow> (string \<times> pyval) list" where
  "void_data self refund =
     [(''retref'', PStr (r_paymentTransactionId refund)), (''merchid'', merchantId self)]"

definition void_call :: "CardConnectProcessor \<Rightarrow> Refund \<Rightarrow> http_call" where
  "void_call self refund =
     POST (voidEndpoint self) (PDict (void_data self refund)) (usr self, pwd self)"

text \<open>Lines 256 to 320, the body of the inner \<open>try\<close> of the void path.\<close>

definition void_try ::
  "world \<Rightarrow> CardConnectProcessor \<Rightarrow> Refund \<Rightarrow> cc_locals \<Rightarrow> exn option \<times> cc_locals" where
  "void_try w self refund v0 =
     (let v1 = v0\<lparr>issued := issued v0 @ [void_call self refund]\<rparr> in
      case requests w (void_call self refund) of
        Inl e \<Rightarrow> (Some e, v1)
      | Inr resp \<Rightarrow>
          (let v2 = v1\<lparr>void_resp := Some resp\<rparr> in
           if status_code resp = 200 then
             (case json_loads w (resp_text resp) of
                Inl e \<Rightarrow> (Some e, v2)
              | Inr void_resp_json \<Rightarrow>
                  interpret_void w void_resp_json
                    (v2\<lparr>gateway_response_data :=
                          gateway_response_data v2 @ [void_resp_json]\<rparr>))
           else if status_code resp = 401 then
             (None, v2\<lparr>gateway_response_data :=
                          append_json_or_string_to_array w (resp_text resp)
                            (gateway_response_data v2),
                        http_status_code := status_code resp,
                        message :=
                          Some ''There was an authorization error while processing a void request.''\<rparr>)
           else
             (None, v2\<lparr>gateway_response_data :=
                          append_json_or_string_to_array w (resp_text resp)
                            (gateway_response_data v2),
                        http_status_code := status_code resp,
                        transaction_id := PStr (r_paymentTransactionId refund),
                        message := Some ''Unable to complete void transaction.''\<rparr>)))"

definition void_except :: "world \<Rightarrow> Refund \<Rightarrow> exn \<Rightarrow> cc_locals \<Rightarrow> cc_locals" where
  "void_except w refund e v =
     (let exception_message = ''process_refund void exception: '' @ exn_str e;
          gd = gateway_response_data v @ [PStr exception_message]
      in v\<lparr>gateway_response_data := append_response_text w (void_resp v) gd,
           message := Some ''An unknown error occurred while processing void transaction.'',
           http_status_code := 500,
           transaction_id := PStr (r_paymentTransactionId refund)\<rparr>)"

text \<open>Lines 353 to 378: the decoded body of a 200 answer of the refund endpoint.\<close>

definition interpret_refund :: "world \<Rightarrow> pyval \<Rightarrow> cc_locals \<Rightarrow> exn option \<times> cc_locals" where
  "interpret_refund w refund_resp_json v =
     (case refund_resp_json of
        PDict d \<Rightarrow>
          (let respstat = dict_get d ''respstat'';
               retref = dict_get d ''retref'';
               r =
                 (if truthy respstat \<and> respstat = PStr ''A'' then
                    (None, v\<lparr>success := True,
                              message := Some ''Successful refund transaction.''\<rparr>)
                  else
                    (let v1 = v\<lparr>http_status_code := 400,
                                 message :=
                                   Some (if truthy respstat \<and> respstat = PStr ''B''
                                         then ''Please retry the request.''
                                         else ''Refund failed.'')\<rparr> in
                     case py_item refund_resp_json ''resptext'' of
                       Inl e \<Rightarrow> (Some e, v1)
                     | Inr error_resp_txt \<Rightarrow>
                         (case str_iadd (message v1) ('' '' @ py_str w error_resp_txt) of
                            Inl e \<Rightarrow> (Some e, v1)
                          | Inr m \<Rightarrow> (None, v1\<lparr>message := m\<rparr>))))
           in case r of
                (Some e, v2) \<Rightarrow> (Some e, v2)
              | (None, v2) \<Rightarrow>
                  (None, if truthy retref then v2\<lparr>transaction_id := retref\<rparr> else v2))
      | _ \<Rightarrow> (Some (no_get refund_resp_json), v))"

definition refund_data :: "CardConnectProcessor \<Rightarrow> Refund \<Rightarrow> (string \<times> pyval) list" where
  "refund_data self refund =
     [(''retref'', PStr (r_paymentTransactionId refund)), (''merchid'', merchantId self),
      (''amount'', opt_float (r_amount refund))]"

definition refund_call :: "CardConnectProcessor \<Rightarrow> Refund \<Rightarrow> http_call" where
  "refund_call self refund =
     POST (refundEndpoint self) (PDict (refund_data self refund)) (usr self, pwd self)"

text \<open>Lines 347 to 391, the body of the inner \<open>try\<close> of the refund path.\<close>

definition refund_try ::
  "world \<Rightarrow> CardConnectProcessor \<Rightarrow> Refund \<Rightarrow> cc_locals \<Rightarrow> exn option \<times> cc_locals" where
  "refund_try w self refund v0 =
     (let v1 = v0\<lparr>issued := issued v0 @ [refund_call self refund]\<rparr> in
      case requests w (refund_call self refund) of
        Inl e \<Rightarrow> (Some e, v1)
      | Inr resp \<Rightarrow>
          (let v2 = v1\<lparr>refund_response := Some resp\<rparr> in
           if status_code resp = 200 then
             (case json_loads w (resp_text resp) of
                Inl e \<Rightarrow> (Some e, v2)
              | Inr refund_resp_json \<Rightarrow>
                  interpret_refund w refund_resp_json
                    (v2\<lparr>gateway_response_data :=
                          gateway_response_data v2 @ [refund_resp_json]\<rparr>))
           else if status_code resp = 401 then
             (None, v2\<lparr>gateway_response_data :=
                          append_json_or_string_to_array w (resp_text resp)
                            (gateway_response_data v2),
                        http_status_code := status_code resp,
                        message :=
                          Some ''There was an authorization error while processing the refund request.''\<rparr>)
           else
             (None, v2\<lparr>gateway_response_data :=
                          append_json_or_string_to_array w (resp_text resp)
                            (gateway_response_data v2),
                        http_status_code := status_code resp,
                        transaction_id := PStr (r_paymentTransactionId refund),
                        message := Some ''Unable to complete refund transaction''\<rparr>)))"

definition refund_except :: "world \<Rightarrow> Refund \<Rightarrow> exn \<Rightarrow> cc_locals \<Rightarrow> cc_locals" where
  "refund_except w refund e v =
     (let exception_message = ''process_refund refund exception: '' @ exn_str e;
          gd = gateway_response_data v @ [PStr exception_message]
      in v\<lparr>gateway_response_data := append_response_text w (refund_response v) gd,
           message := Some ''An unknown error occurred while processing refund transaction.'',
           http_status_code := 500,
           transaction_id := PStr (r_paymentTransactionId refund)\<rparr>)"

text \<open>Lines 239 to 413: the decision on the decoded body of a 200 answer of the inquiry.\<close>

definition decide_refund ::
  "world \<Rightarrow> CardConnectProcessor \<Rightarrow> Refund \<Rightarrow> pyval \<Rightarrow> cc_locals \<Rightarrow> exn option \<times> cc_locals" where
  "decide_refund w self refund payment_status_response_json v =
     (case payment_status_response_json of
        PDict d \<Rightarrow>
          (let respstat = dict_get d ''respstat'';
               voidable = dict_get d ''voidable'';
               refundable = dict_get d ''refundable''
           in if truthy respstat \<and> respstat = PStr ''A'' then
                (if truthy voidable \<and> voidable = PStr ''Y'' then
                   try_except_Exception (void_try w self refund v) (void_except w refund)
                 else if truthy refundable \<and> refundable = PStr ''Y'' then
                   try_except_Exception (refund_try w self refund v) (refund_except w refund)
                 else
                   (None, v\<lparr>message := Some ''The refund cannot be processed at this time.'',
                             http_status_code := 409,
                             transaction_id := PStr (r_paymentTransactionId refund)\<rparr>))
              else
                (None, v\<lparr>message :=
                            Some ''The payment requested was not authorized or does not exist.'',
                          http_status_code := 409,
                          transaction_id := PStr (r_paymentTransactionId refund)\<rparr>))
      | _ \<Rightarrow> (Some (no_get payment_status_response_json), v))"

definition inquire_call :: "world \<Rightarrow> CardConnectProcessor \<Rightarrow> Refund \<Rightarrow> http_call" where
  "inquire_call w self refund =
     GET (inquireEndpointBaseUrl self @ ''/'' @ r_paymentTransactionId refund @ ''/'' @
          py_str w (merchantId self))
       (usr self, pwd self)"

definition process_refund_try ::
  "world \<Rightarrow> CardConnectProcessor \<Rightarrow> Refund \<Rightarrow> cc_locals \<Rightarrow> exn option \<times> cc_locals" where
  "process_refund_try w self refund v0 =
     (let v1 = v0\<lparr>issued := issued v0 @ [inquire_call w self refund]\<rparr> in
      case requests w (inquire_call w self refund) of
        Inl e \<Rightarrow> (Some e, v1)
      | Inr resp \<Rightarrow>
          (let v2 = v1\<lparr>inquiry_resp := Some resp\<rparr> in
           if status_code resp = 200 then
             (case json_loads w (resp_text resp) of
                Inl e \<Rightarrow> (Some e, v2)
              | Inr payment_status_response_json \<Rightarrow>
                  decide_refund w self refund payment_status_response_json
                    (v2\<lparr>gateway_response_data :=
                          gateway_response_data v2 @ [payment_status_response_json]\<rparr>))
           else if status_code resp = 401 then
             (None, v2\<lparr>gateway_response_data :=
                          append_json_or_string_to_array w (resp_text resp)
                            (gateway_response_data v2),
                        http_status_code := status_code resp,
                        message :=
                          Some ''There was an authorization error while accessing your previous payment status.''\<rparr>)
           else
             (None, v2\<lparr>gateway_response_data :=
                          append_json_or_string_to_array w (resp_text resp)
                            (gateway_response_data v2),
                        message :=
                          Some ''Unable to complete request for payment status. Please contact BlueVolt support.'',
                        http_status_code := status_code resp,
                        transaction_id := PStr (r_paymentTransactionId refund)\<rparr>)))"

definition process_refund_except :: "world \<Rightarrow> Refund \<Rightarrow> exn \<Rightarrow> cc_locals \<Rightarrow> cc_locals" where
  "process_refund_except w refund e v =
     (let exception_message = ''process_refund inquiry exception: '' @ exn_str e;
          gd = gateway_response_data v @ [PStr exception_message]
      in v\<lparr>gateway_response_data := append_response_text w (inquiry_resp v) gd,
           message :=
             Some ''An unknown error occurred while retrieving your payment status. The refund was unsuccessful.'',
           http_status_code := 500,
           transaction_id := PStr (r_paymentTransactionId refund)\<rparr>)"

definition CardConnect_process_refund ::
  "world \<Rightarrow> CardConnectProcessor \<Rightarrow> Refund \<Rightarrow> (exn + CanonicalResult) \<times> http_call list" where
  "CardConnect_process_refund w self refund =
     cc_return (r_merchantAccountId refund)
       (try_except_Exception (process_refund_try w self refund cc_initial)
          (process_refund_except w refund))"

section \<open>gateways/payload.py\<close>

record PayloadProcessor =
  api_key :: pyval
  processing_id :: pyval


text \<open>
  The local variables of both methods; \<open>pl_issued\<close> records the SDK calls made, in order.
  The assignment to the module global \<open>pl.api_key\<close> is left out.
\<close>

record pl_locals =
  pl_transaction_id :: pyval
  payload_processing_status :: pyval
  pl_http_status_code :: pyval
  pl_success :: bool
  pl_message :: pyval
  pl_issued :: "pl_call list"

definition pl_initial :: pl_locals where
  "pl_initial =
     \<lparr>pl_transaction_id = PNone, payload_processing_status = PNone,
      pl_http_status_code = PInt 200, pl_success = False, pl_message = PNone, pl_issued = []\<rparr>"

text \<open>\<open>comment[:128]\<close> on an optional comment: slicing \<open>None\<close> raises \<open>TypeError\<close>.\<close>

definition slice_128 :: "string option \<Rightarrow> exn + string" where
  "slice_128 comment =
     (case comment of
        None \<Rightarrow> Inl (TypeError (quoted ''NoneType'' @ '' object is not subscriptable''))
      | Some c \<Rightarrow> Inr (take 128 c))"

subsection \<open>process_payment\<close>

definition payment_card :: "Payment \<Rightarrow> card" where
  "payment_card payment =
     \<lparr>account_holder = opt_str (p_name payment),
      card_number = PStr (p_account payment),
      expiry = PStr (take 2 (p_expDate payment) @ ''/'' @ drop 2 (p_expDate payment)),
      card_code = PStr (p_cvv2 payment)\<rparr>"

definition pl_payment_try ::
  "world \<Rightarrow> PayloadProcessor \<Rightarrow> Payment \<Rightarrow> pl_locals \<Rightarrow> exn option \<times> pl_locals" where
  "pl_payment_try w self payment v0 =
     (case slice_128 (p_comment payment) of
        Inl e \<Rightarrow> (Some e, v0)
      | Inr description \<Rightarrow>
          (let call = Payment_create (p_amount payment) (payment_card payment)
                        (processing_id self) (PStr description);
               v1 = v0\<lparr>pl_issued := pl_issued v0 @ [call]\<rparr>
           in case payload_api w call of
                Inl e \<Rightarrow> (Some e, v1)
              | Inr payment_response \<Rightarrow>
                  (None, v1\<lparr>pl_success := True,
                            payload_processing_status := obj_status_code payment_response,
                            pl_message := obj_status_message payment_response,
                            pl_transaction_id := obj_id payment_response\<rparr>)))"

text \<open>\<open>k in v\<close> for a string \<open>k\<close>, and the nested lookup of lines 93 to 98.\<close>

fun is_substring :: "string \<Rightarrow> string \<Rightarrow> bool" where
  "is_substring sub [] = (sub = [])"
| "is_substring sub (c # cs) = (take (length sub) (c # cs) = sub \<or> is_substring sub cs)"

fun py_in :: "string \<Rightarrow> pyval \<Rightarrow> exn + bool" where
  "py_in k (PDict d) = Inr (map_of d k \<noteq> None)"
| "py_in k (PStr s) = Inr (is_substring k s)"
| "py_in k (PList xs) = Inr (List.member xs (PStr k))"
| "py_in k v = Inl (TypeError (''argument of type '' @ quoted (type_name v) @ '' is not iterable''))"

definition and_then :: "exn + 'a \<Rightarrow> ('a \<Rightarrow> exn + 'b) \<Rightarrow> exn + 'b" where
  "and_then r f = (case r of Inl e \<Rightarrow> Inl e | Inr x \<Rightarrow> f x)"

definition card_number_message :: "pyval \<Rightarrow> exn + pyval" where
  "card_number_message error_response =
     and_then (py_in ''details'' error_response) (\<lambda>b1.
       if \<not> b1 then Inr error_response else
       and_then (py_item error_response ''details'') (\<lambda>details.
       and_then (py_in ''payment_method'' details) (\<lambda>b2.
       if \<not> b2 then Inr error_response else
       and_then (py_item details ''payment_method'') (\<lambda>payment_method.
       and_then (py_in ''card'' payment_method) (\<lambda>b3.
       if \<not> b3 then Inr error_response else
       and_then (py_item payment_method ''card'') (\<lambda>card.
       and_then (py_in ''card_number'' card) (\<lambda>b4.
       if \<not> b4 then Inr error_response else py_item card ''card_number'')))))))"

text \<open>The \<open>except\<close> clauses of \<open>process_payment\<close>, tried in the order of the source.\<close>

definition pl_payment_except :: "exn \<Rightarrow> pl_locals \<Rightarrow> pl_locals" where
  "pl_payment_except error v =
     (if is_ValueError error then
        v\<lparr>pl_http_status_code := PInt 400, pl_message := PStr (exn_str error)\<rparr>
      else
        (case error of
           TransactionDeclined declined_status_code http_code declined_status_message \<Rightarrow>
             v\<lparr>payload_processing_status := declined_status_code,
               pl_http_status_code := http_code,
               pl_message := declined_status_message\<rparr>
         | PayloadError error_type resp dict \<Rightarrow>
             (case map_of GatewayResponses error_type of
                Some code \<Rightarrow>
                  v\<lparr>pl_http_status_code := PInt code,
                    pl_message :=
                      (case resp of
                         None \<Rightarrow> dict
                       | Some error_response \<Rightarrow>
                           (case card_number_message error_response of
                              Inl e \<Rightarrow> dict
                            | Inr m \<Rightarrow> m))\<rparr>
              | None \<Rightarrow>
                  v\<lparr>pl_message := PStr ''Unrecognized Payload error response'',
                    pl_http_status_code := PInt 400\<rparr>)
         | _ \<Rightarrow>
             v\<lparr>pl_message := PStr ''Unknown Payload response type'',
               pl_http_status_code := PInt 422\<rparr>))"

definition pl_finally :: "int \<Rightarrow> pl_locals \<Rightarrow> CanonicalResult" where
  "pl_finally merchant_account_id v =
     \<lparr>res_success = pl_success v,
      res_transactionId = pl_transaction_id v,
      res_statusCode = payload_processing_status v,
      res_gatewayHttpStatusCode = pl_http_status_code v,
      res_responseMessage = pl_message v,
      res_merchantAccountId = merchant_account_id,
      res_gatewayResponseData = PNone\<rparr>"

text \<open>
  The last clause is a bare \<open>except:\<close>, so every exception of the body is caught by one of
  the clauses; none of the handlers can raise.
\<close>

definition pl_return ::
  "int \<Rightarrow> exn option \<times> pl_locals \<Rightarrow> (exn \<Rightarrow> pl_locals \<Rightarrow> pl_locals) \<Rightarrow>
   (exn + CanonicalResult) \<times> pl_call list" where
  "pl_return merchant_account_id body handler =
     (case body of
        (None, v) \<Rightarrow> (Inr (pl_finally merchant_account_id v), pl_issued v)
      | (Some e, v) \<Rightarrow> (Inr (pl_finally merchant_account_id (handler e v)), pl_issued v))"

definition Payload_process_payment ::
  "world \<Rightarrow> PayloadProcessor \<Rightarrow> Payment \<Rightarrow> (exn + CanonicalResult) \<times> pl_call list" where
  "Payload_process_payment w self payment =
     pl_return (p_merchantAccountId payment) (pl_payment_try w self payment pl_initial)
       pl_payment_except"

subsection \<open>process_refund\<close>

definition already_voided_message :: string where
  "already_voided_message =
     ''Payment transaction has already been voided.  No further action has been taken.''"

definition unknown_funding_status :: "world \<Rightarrow> pyval \<Rightarrow> string" where
  "unknown_funding_status w funding_status =
     ''Unknown funding status '' @ quoted (py_str w funding_status) @
     '' encountered during refund process.  Payment was not refunded.''"

text \<open>Lines 147 to 154 when a void or a refund was made: \<open>refund_object\<close> is read.\<close>

definition pl_refund_done :: "pl_object \<Rightarrow> pl_locals \<Rightarrow> pl_locals" where
  "pl_refund_done refund_object v =
     v\<lparr>pl_success := True,
       payload_processing_status := obj_status refund_object,
       pl_message := obj_status_message refund_object,
       pl_transaction_id := obj_id refund_object\<rparr>"

text \<open>
  \<open>refund_object.update(...)\<close> changes the fetched object in place; the model takes the
  SDK's answer to the update as the object read afterwards.
\<close>

definition pl_refund_try ::
  "world \<Rightarrow> PayloadProcessor \<Rightarrow> Refund \<Rightarrow> pl_locals \<Rightarrow> exn option \<times> pl_locals" where
  "pl_refund_try w self refund v0 =
     (let get_payment = Payment_get (r_paymentTransactionId refund);
          v1 = v0\<lparr>pl_issued := pl_issued v0 @ [get_payment]\<rparr>
      in case payload_api w get_payment of
           Inl e \<Rightarrow> (Some e, v1)
         | Inr payment_object \<Rightarrow>
             if obj_status payment_object = PStr ''voided'' then
               (None, v1\<lparr>pl_success := True,
                         payload_processing_status := obj_status payment_object,
                         pl_message := PStr already_voided_message\<rparr>)
             else if obj_funding_status payment_object = PStr ''pending'' then
               (let get_transaction = Transaction_get (r_paymentTransactionId refund);
                    v2 = v1\<lparr>pl_issued := pl_issued v1 @ [get_transaction]\<rparr>
                in case payload_api w get_transaction of
                     Inl e \<Rightarrow> (Some e, v2)
                   | Inr refund_object \<Rightarrow>
                       (case slice_128 (r_comment refund) of
                          Inl e \<Rightarrow> (Some e, v2)
                        | Inr description \<Rightarrow>
                            (let update = Transaction_update refund_object ''voided''
                                            (PStr description);
                                 v3 = v2\<lparr>pl_issued := pl_issued v2 @ [update]\<rparr>
                             in case payload_api w update of
                                  Inl e \<Rightarrow> (Some e, v3)
                                | Inr updated \<Rightarrow> (None, pl_refund_done updated v3))))
             else if obj_funding_status payment_object = PStr ''batched'' then
               (case slice_128 (r_comment refund) of
                  Inl e \<Rightarrow> (Some e, v1)
                | Inr description \<Rightarrow>
                    (let create = Refund_create (obj_amount payment_object)
                                    (r_paymentTransactionId refund) (PStr description);
                         v2 = v1\<lparr>pl_issued := pl_issued v1 @ [create]\<rparr>
                     in case payload_api w create of
                          Inl e \<Rightarrow> (Some e, v2)
                        | Inr refund_object \<Rightarrow> (None, pl_refund_done refund_object v2)))
             else
               (Some (ValueError
                        (unknown_funding_status w (obj_funding_status payment_object))), v1))"

definition pl_refund_except :: "world \<Rightarrow> exn \<Rightarrow> pl_locals \<Rightarrow> pl_locals" where
  "pl_refund_except w error v =
     (let unrecognized = v\<lparr>pl_message := PStr ''Unrecognized Payload error response'',
                           pl_http_status_code := PInt 400\<rparr>;
          unknown = v\<lparr>pl_message := PStr ''Unknown Payload response type'',
                      pl_http_status_code := PInt 422\<rparr>
      in if is_ValueError error then
           v\<lparr>pl_http_status_code := PInt 400, pl_message := PStr (exn_str error)\<rparr>
         else
           (case error of
              PayloadError error_type resp dict \<Rightarrow>
                (case map_of GatewayResponses error_type of
                   Some code \<Rightarrow>
                     v\<lparr>pl_http_status_code := PInt code,
                       pl_message := (case resp of None \<Rightarrow> dict | Some r \<Rightarrow> r)\<rparr>
                 | None \<Rightarrow> unrecognized)
            | TransactionDeclined declined_status_code http_code declined_status_message \<Rightarrow>
                (if declined_is_BadRequest w then unrecognized else unknown)
            | _ \<Rightarrow> unknown))"

definition Payload_process_refund ::
  "world \<Rightarrow> PayloadProcessor \<Rightarrow> Refund \<Rightarrow> (exn + CanonicalResult) \<times> pl_call list" where
  "Payload_process_refund w self refund =
     pl_return (r_merchantAccountId refund) (pl_refund_try w self refund pl_initial)
       (pl_refund_except w)"

section \<open>main.py\<close>












datatype processor = Payload PayloadProcessor | CardConnect CardConnectProcessor

















section \<open>Observations and example inputs\<close>

text \<open>The description that an SDK call carries upstream, if it carries one.\<close>

fun description_of :: "pl_call \<Rightarrow> pyval option" where
  "description_of (Payment_create a c p d) = Some d"
| "description_of (Transaction_update ob st d) = Some d"
| "description_of (Refund_create a i d) = Some d"
| "description_of (Payment_get i) = None"
| "description_of (Transaction_get i) = None"

text \<open>
  Worlds for concrete runs: an HTTP upstream given by the answers of its URLs, a decoder
  given by the values of the bodies it decodes, an SDK given by a function.
\<close>

definition http_by_url :: "(string \<times> response) list \<Rightarrow> http_call \<Rightarrow> exn + response" where
  "http_by_url answers call =
     (case map_of answers (case call of POST url body auth \<Rightarrow> url | GET url auth \<Rightarrow> url) of
        None \<Rightarrow> Inl (RequestException ''connection refused'')
      | Some r \<Rightarrow> Inr r)"

definition decode_by_text :: "(string \<times> pyval) list \<Rightarrow> string \<Rightarrow> exn + pyval" where
  "decode_by_text bodies s =
     (case map_of bodies s of
        None \<Rightarrow> Inl (JSONDecodeError ''Expecting value: line 1 column 1 (char 0)'')
      | Some v \<Rightarrow> Inr v)"

definition no_sdk :: "pl_call \<Rightarrow> exn + pl_object" where
  "no_sdk call = Inl (OtherException ''not configured'')"

definition example_world ::
  "(http_call \<Rightarrow> exn + response) \<Rightarrow> (string \<Rightarrow> exn + pyval) \<Rightarrow> (pl_call \<Rightarrow> exn + pl_object) \<Rightarrow>
   world" where
  "example_world http decode sdk =
     \<lparr>json_loads = decode, str_of = (\<lambda>v. ''<value>''), requests = http, payload_api = sdk,
      declined_is_BadRequest = True\<rparr>"

definition cc_credentials :: "string \<rightharpoonup> pyval" where
  "cc_credentials =
     [''username'' \<mapsto> PStr ''testing'', ''password'' \<mapsto> PStr ''testing123'',
      ''merchantId'' \<mapsto> PStr ''496160873888'']"

definition example_cc :: CardConnectProcessor where
  "example_cc =
     \<lparr>usr = PStr ''testing'', pwd = PStr ''testing123'', merchantId = PStr ''496160873888'',
      authEndPoint = ''https://host/cardconnect/rest/auth'',
      inquireEndpointBaseUrl = ''https://host/cardconnect/rest/inquire'',
      voidEndpoint = ''https://host/cardconnect/rest/void'',
      refundEndpoint = ''https://host/cardconnect/rest/refund''\<rparr>"

definition example_pl :: PayloadProcessor where
  "example_pl = \<lparr>api_key = PStr ''key'', processing_id = PStr ''acct_1''\<rparr>"

definition example_payment :: Payment where
  "example_payment =
     \<lparr>p_gatewayTypeId = 2, p_gatewayTypeName = ''CardConnect'', p_merchantAccountId = 7,
      p_credentials = cc_credentials, p_account = ''4788250000121443'', p_expDate = ''1225'',
      p_amount = 10, p_userId = 1, p_cvv2 = ''123'', p_currencyType = 840, p_name = None,
      p_street = None, p_city = None, p_state = None, p_zip = None, p_country = None,
      p_comment = Some ''course fee'', p_userName = None\<rparr>"

definition example_refund :: Refund where
  "example_refund =
     \<lparr>r_gatewayTypeId = 2, r_gatewayTypeName = ''CardConnect'', r_merchantAccountId = 7,
      r_credentials = cc_credentials, r_paymentTransactionId = ''112233'', r_userId = 1,
      r_comment = Some ''refund'', r_amount = Some 10, r_maskedCardNumber = None,
      r_currencyType = None\<rparr>"

definition inquire_url :: string where
  "inquire_url = ''https://host/cardconnect/rest/inquire/112233/496160873888''"

definition example_object :: pl_object where
  "example_object =
     \<lparr>obj_id = PStr ''txn_1'', obj_status = PStr ''processed'',
      obj_status_code = PStr ''approved'', obj_status_message = PStr ''Transaction approved.'',
      obj_funding_status = PStr ''pending'', obj_amount = PFloat 10\<rparr>"

text \<open>
  The vendor text as \<open>process_payment\<close> appends it to a failure message: a blank, the
  \<open>resptext\<close> of the answer and a full stop, when the answer has a \<open>resptext\<close>.
\<close>

definition vendor_text :: "world \<Rightarrow> (string \<times> pyval) list \<Rightarrow> string" where
  "vendor_text w d =
     (if truthy (dict_get d ''resptext'') then '' '' @ py_str w (dict_get d ''resptext'') @ ''.''
      else [])"

text \<open>A world whose auth endpoint answers 200 with a body that decodes to \<open>body\<close>.\<close>

definition auth_world :: "(string \<times> pyval) list \<Rightarrow> world" where
  "auth_world body =
     example_world
       (http_by_url [(''https://host/cardconnect/rest/auth'',
                      \<lparr>status_code = 200, resp_text = ''<auth body>''\<rparr>)])
       (decode_by_text [(''<auth body>'', PDict body)]) no_sdk"

text \<open>
  A world for a refund: the inquiry answers \<open>inquiry_status\<close> with a body that decodes to
  \<open>inquiry_body\<close>, the void and the refund endpoint answer \<open>second_status\<close> with a body
  that decodes to \<open>second_body\<close>.
\<close>

definition refund_world :: "int \<Rightarrow> (string \<times> pyval) list \<Rightarrow> int \<Rightarrow> (string \<times> pyval) list \<Rightarrow> world" where
  "refund_world inquiry_status inquiry_body second_status second_body =
     example_world
       (http_by_url
          [(inquire_url, \<lparr>status_code = inquiry_status, resp_text = ''<inquiry body>''\<rparr>),
           (''https://host/cardconnect/rest/void'',
            \<lparr>status_code = second_status, resp_text = ''<second body>''\<rparr>),
           (''https://host/cardconnect/rest/refund'',
            \<lparr>status_code = second_status, resp_text = ''<second body>''\<rparr>)])
       (decode_by_text
          [(''<inquiry body>'', PDict inquiry_body), (''<second body>'', PDict second_body)])
       no_sdk"

text \<open>
  What a caller reads first in a returned dictionary: success, status, message and
  transaction id; \<open>None\<close> when the method raised instead of returning.
\<close>

definition summary :: "exn + CanonicalResult \<Rightarrow> (bool \<times> pyval \<times> pyval \<times> pyval) option" where
  "summary r =
     (case r of
        Inl e \<Rightarrow> None
      | Inr c \<Rightarrow>
          Some (res_success c, res_gatewayHttpStatusCode c, res_responseMessage c,
                res_transactionId c))"

definition example_auth :: "pyval \<times> pyval" where
  "example_auth = (PStr ''testing'', PStr ''testing123'')"

text \<open>
  An SDK for concrete runs: the payment looked up is processed, with the given funding
  status; an update answers the object with its new status.
\<close>

definition example_sdk :: "string \<Rightarrow> pl_call \<Rightarrow> exn + pl_object" where
  "example_sdk funding_status call =
     (case call of
        Payment_get i \<Rightarrow> Inr (example_object\<lparr>obj_funding_status := PStr funding_status\<rparr>)
      | Transaction_get i \<Rightarrow> Inr example_object
      | Transaction_update ob st d \<Rightarrow> Inr (ob\<lparr>obj_status := PStr st\<rparr>)
      | _ \<Rightarrow> Inr (example_object\<lparr>obj_id := PStr ''txn_2''\<rparr>))"

definition sdk_world :: "string \<Rightarrow> world" where
  "sdk_world funding_status =
     example_world (http_by_url []) (decode_by_text []) (example_sdk funding_status)"



section \<open>Exceptions never leave an adapter\<close>

lemma is_Exception_all: "is_Exception e"
  by (cases e) simp_all

lemma try_except_Exception_caught:
  "try_except_Exception body handler =
     (case body of (None, v) \<Rightarrow> (None, v) | (Some e, v) \<Rightarrow> (None, handler e v))"
  by (simp add: try_except_Exception_def is_Exception_all split: prod.splits option.splits)

lemma fst_try_except_Exception: "fst (try_except_Exception body handler) = None"
  by (simp add: try_except_Exception_caught split: prod.splits option.splits)

lemma cc_return_caught:
  "cc_return m (try_except_Exception body handler) =
     (Inr (cc_finally m (snd (try_except_Exception body handler))),
      issued (snd (try_except_Exception body handler)))"
  using fst_try_except_Exception [of body handler]
  by (cases "try_except_Exception body handler") (simp add: cc_return_def)



section \<open>CardConnect: the payment\<close>

lemma currency_unknown:
  "c \<notin> {840, 124, 826, 978} \<Longrightarrow>
   CurrencyCode_name w c = Inl (ValueError (py_str w (PInt c) @ '' is not a valid CurrencyCode''))"
  by (simp add: CurrencyCode_name_def)

text \<open>
  Claim C10. A CardConnect payment whose \<open>currencyType\<close> is none of 840, 124, 826 and 978
  issues no upstream call and returns a failure with status 500 and the internal service
  error message: the lookup of the currency symbol raises while the request is built.
\<close>

theorem C10_currency_whitelist:
  assumes "p_currencyType payment \<notin> {840, 124, 826, 978}"
  shows "snd (CardConnect_process_payment w self payment) = [] \<and>
         (\<exists>r. fst (CardConnect_process_payment w self payment) = Inr r \<and>
              \<not> res_success r \<and>
              res_transactionId r = PNone \<and>
              res_statusCode r = PInt 500 \<and>
              res_gatewayHttpStatusCode r = PInt 500 \<and>
              res_responseMessage r =
                PStr ''There was an internal service error with your request.'')"
  using currency_unknown [OF assms, of w]
  by (simp add: CardConnect_process_payment_def cc_return_def process_payment_try_def
      try_except_Exception_caught process_payment_except_def cc_finally_def cc_initial_def
      opt_str_def)

theorem C10_currency_whitelist_witness:
  "snd (CardConnect_process_payment (example_world (http_by_url []) (decode_by_text []) no_sdk)
          example_cc (example_payment\<lparr>p_currencyType := 36\<rparr>)) = [] \<and>
   (\<exists>r. fst (CardConnect_process_payment (example_world (http_by_url []) (decode_by_text []) no_sdk)
          example_cc (example_payment\<lparr>p_currencyType := 36\<rparr>)) = Inr r \<and>
        \<not> res_success r \<and>
        res_transactionId r = PNone \<and>
        res_statusCode r = PInt 500 \<and>
        res_gatewayHttpStatusCode r = PInt 500 \<and>
        res_responseMessage r = PStr ''There was an internal service error with your request.'')"
  using C10_currency_whitelist [of "example_payment\<lparr>p_currencyType := 36\<rparr>"
      "example_world (http_by_url []) (decode_by_text []) no_sdk" example_cc]
  by (simp add: example_payment_def)

lemma process_payment_200:
  assumes "CurrencyCode_name w (p_currencyType payment) = Inr currency"
      and "requests w (auth_call self payment currency) = Inr resp"
      and "status_code resp = 200"
      and "json_loads w (resp_text resp) = Inr j"
  shows "process_payment_try w self payment v0 =
         interpret_auth w j
           (v0\<lparr>issued := issued v0 @ [auth_call self payment currency],
               inquiry_resp := Some resp,
               gateway_response_data := gateway_response_data v0 @ [j]\<rparr>)"
  using assms by (simp add: process_payment_try_def Let_def)

lemma interpret_auth_dict:
  "interpret_auth w (PDict d) v =
     (None,
      (if dict_get d ''respstat'' = PStr ''A''
       then v\<lparr>success := True, message := Some ''Success.''\<rparr>
       else v\<lparr>success := False, http_status_code := 400,
              message := Some ((if dict_get d ''respstat'' = PStr ''B''
                                then ''Please retry the request.''
                                else ''Authorization failed.'') @ vendor_text w d)\<rparr>)
      \<lparr>transaction_id :=
          (if truthy (dict_get d ''retref'') then dict_get d ''retref'' else transaction_id v)\<rparr>)"
  by (auto simp: interpret_auth_def Let_def vendor_text_def)

text \<open>
  Claim C4. When the auth endpoint answers 200 with a JSON object: \<open>respstat\<close> \<open>A\<close> gives
  success, status 200 and the message \<open>Success.\<close>; \<open>respstat\<close> \<open>B\<close> gives a failure with
  status 400 and \<open>Please retry the request.\<close> followed by the vendor text; any other
  \<open>respstat\<close> gives a failure with status 400 and \<open>Authorization failed.\<close> followed by
  the vendor text; and in all three cases a \<open>retref\<close> of the answer (one that Python
  takes as true, that is, not empty) is the transaction id of the result.
\<close>

theorem C4_payment_outcome:
  assumes "CurrencyCode_name w (p_currencyType payment) = Inr currency"
      and "requests w (auth_call self payment currency) = Inr resp"
      and "status_code resp = 200"
      and "json_loads w (resp_text resp) = Inr (PDict d)"
  shows "\<exists>r. fst (CardConnect_process_payment w self payment) = Inr r \<and>
           (dict_get d ''respstat'' = PStr ''A'' \<longrightarrow>
              res_success r \<and> res_gatewayHttpStatusCode r = PInt 200 \<and>
              res_responseMessage r = PStr ''Success.'') \<and>
           (dict_get d ''respstat'' = PStr ''B'' \<longrightarrow>
              \<not> res_success r \<and> res_gatewayHttpStatusCode r = PInt 400 \<and>
              res_responseMessage r = PStr (''Please retry the request.'' @ vendor_text w d)) \<and>
           (dict_get d ''respstat'' \<noteq> PStr ''A'' \<and> dict_get d ''respstat'' \<noteq> PStr ''B'' \<longrightarrow>
              \<not> res_success r \<and> res_gatewayHttpStatusCode r = PInt 400 \<and>
              res_responseMessage r = PStr (''Authorization failed.'' @ vendor_text w d)) \<and>
           res_statusCode r = res_gatewayHttpStatusCode r \<and>
           res_transactionId r =
             (if truthy (dict_get d ''retref'') then dict_get d ''retref'' else PNone)"
  by (simp add: CardConnect_process_payment_def cc_return_def try_except_Exception_def
      process_payment_200 [OF assms] interpret_auth_dict cc_finally_def cc_initial_def opt_str_def)

theorem C4_payment_outcome_witness:
  "\<exists>r. fst (CardConnect_process_payment
             (auth_world [(''respstat'', PStr ''B''), (''resptext'', PStr ''Timed out''),
                          (''retref'', PStr ''343005123105'')])
             example_cc example_payment) = Inr r \<and>
       \<not> res_success r \<and> res_gatewayHttpStatusCode r = PInt 400 \<and>
       res_responseMessage r = PStr ''Please retry the request. Timed out.'' \<and>
       res_transactionId r = PStr ''343005123105''"
proof -
  let ?d = "[(''respstat'', PStr ''B''), (''resptext'', PStr ''Timed out''),
             (''retref'', PStr ''343005123105'')]"
  let ?resp = "\<lparr>status_code = 200, resp_text = ''<auth body>''\<rparr>"
  have cur: "CurrencyCode_name (auth_world ?d) (p_currencyType example_payment) = Inr ''USD''"
    by (simp add: CurrencyCode_name_def example_payment_def)
  have req: "requests (auth_world ?d) (auth_call example_cc example_payment ''USD'') = Inr ?resp"
    by (simp add: auth_world_def example_world_def http_by_url_def auth_call_def example_cc_def)
  have st: "status_code ?resp = 200"
    by simp
  have js: "json_loads (auth_world ?d) (resp_text ?resp) = Inr (PDict ?d)"
    by (simp add: auth_world_def example_world_def decode_by_text_def)
  from C4_payment_outcome [OF cur req st js] show ?thesis
    by (auto simp: dict_get_def vendor_text_def py_str_def)
qed

section \<open>CardConnect: the request body of a payment\<close>

lemma auth_data_name: "map_of (auth_data self p cur) ''name'' = Some (opt_str (p_name p))"
  by (simp add: auth_data_def Let_def AList.update_conv')

lemma auth_data_postal:
  "map_of (auth_data self p cur) ''postal'' =
     (case p_zip p of None \<Rightarrow> None | Some z \<Rightarrow> if z = [] then None else Some (PStr z))"
  by (simp add: auth_data_def Let_def AList.update_conv' opt_str_def split: option.splits)

lemma auth_data_userfields:
  "map_of (auth_data self p cur) ''userfields'' =
     Some (PList [PDict [(''Description'',
                          PStr (case p_comment p of None \<Rightarrow> [] | Some c \<Rightarrow> c))]])"
  by (simp add: auth_data_def Let_def AList.update_conv' opt_str_def split: option.splits)

text \<open>
  Claim C8. The body sent to the auth endpoint has \<open>postal\<close> exactly when the zip is
  present and not empty, and always has the \<open>userfields\<close> description (the two lemmas
  above). It does not have \<open>name\<close> only when the name is present and not empty: the
  dictionary literal of line 130 already holds the key, so a payment without a name sends
  \<open>name\<close> with the value \<open>None\<close>. The run below is such a payment.
\<close>

theorem C8_name_sent_when_absent:
  "p_name example_payment = None \<and>
   snd (CardConnect_process_payment (auth_world [(''respstat'', PStr ''A'')])
          example_cc example_payment) =
     [POST ''https://host/cardconnect/rest/auth''
        (PDict [(''merchid'', PStr ''496160873888''), (''account'', PStr ''4788250000121443''),
                (''expiry'', PStr ''1225''), (''amount'', PFloat 10), (''capture'', PStr ''Y''),
                (''cvv2'', PStr ''123''), (''currency'', PStr ''USD''), (''name'', PNone),
                (''ecomind'', PStr ''E''),
                (''userfields'', PList [PDict [(''Description'', PStr ''course fee'')]])])
        (PStr ''testing'', PStr ''testing123'')]"
  by (simp add: CardConnect_process_payment_def cc_return_def try_except_Exception_def
      process_payment_try_def CurrencyCode_name_def example_payment_def auth_call_def
      auth_data_def example_cc_def auth_world_def example_world_def http_by_url_def
      decode_by_text_def interpret_auth_def dict_get_def cc_initial_def opt_str_def Let_def)

section \<open>CardConnect: the refund\<close>

lemma issued_interpret_void: "issued (snd (interpret_void w j v)) = issued v"
  by (cases j)
     (auto simp: interpret_void_def Let_def str_iadd_def split: sum.splits option.splits)

lemma issued_interpret_refund: "issued (snd (interpret_refund w j v)) = issued v"
  by (cases j)
     (auto simp: interpret_refund_def Let_def str_iadd_def split: sum.splits option.splits)

lemma issued_void_try:
  "issued (snd (void_try w self refund v)) = issued v @ [void_call self refund]"
  by (simp add: void_try_def Let_def issued_interpret_void split: sum.splits)

lemma issued_refund_try:
  "issued (snd (refund_try w self refund v)) = issued v @ [refund_call self refund]"
  by (simp add: refund_try_def Let_def issued_interpret_refund split: sum.splits)

lemma issued_void_path:
  "issued (snd (try_except_Exception (void_try w self refund v) (void_except w refund))) =
     issued v @ [void_call self refund]"
  using issued_void_try [of w self refund v]
  by (cases "void_try w self refund v")
     (simp add: try_except_Exception_caught void_except_def Let_def split: option.splits)

lemma issued_refund_path:
  "issued (snd (try_except_Exception (refund_try w self refund v) (refund_except w refund))) =
     issued v @ [refund_call self refund]"
  using issued_refund_try [of w self refund v]
  by (cases "refund_try w self refund v")
     (simp add: try_except_Exception_caught refund_except_def Let_def split: option.splits)

lemma process_refund_200:
  assumes "requests w (inquire_call w self refund) = Inr resp"
      and "status_code resp = 200"
      and "json_loads w (resp_text resp) = Inr j"
  shows "process_refund_try w self refund v0 =
         decide_refund w self refund j
           (v0\<lparr>issued := issued v0 @ [inquire_call w self refund],
               inquiry_resp := Some resp,
               gateway_response_data := gateway_response_data v0 @ [j]\<rparr>)"
  using assms by (simp add: process_refund_try_def Let_def)

lemma decide_refund_not_approved:
  "dict_get d ''respstat'' \<noteq> PStr ''A'' \<Longrightarrow>
   decide_refund w self refund (PDict d) v =
     (None, v\<lparr>message := Some ''The payment requested was not authorized or does not exist.'',
               http_status_code := 409,
               transaction_id := PStr (r_paymentTransactionId refund)\<rparr>)"
  by (simp add: decide_refund_def Let_def)

lemma decide_refund_voidable:
  "dict_get d ''respstat'' = PStr ''A'' \<Longrightarrow> dict_get d ''voidable'' = PStr ''Y'' \<Longrightarrow>
   decide_refund w self refund (PDict d) v =
     try_except_Exception (void_try w self refund v) (void_except w refund)"
  by (simp add: decide_refund_def Let_def)

lemma decide_refund_refundable:
  "dict_get d ''respstat'' = PStr ''A'' \<Longrightarrow> dict_get d ''voidable'' \<noteq> PStr ''Y'' \<Longrightarrow>
   dict_get d ''refundable'' = PStr ''Y'' \<Longrightarrow>
   decide_refund w self refund (PDict d) v =
     try_except_Exception (refund_try w self refund v) (refund_except w refund)"
  by (simp add: decide_refund_def Let_def)

lemma decide_refund_neither:
  "dict_get d ''respstat'' = PStr ''A'' \<Longrightarrow> dict_get d ''voidable'' \<noteq> PStr ''Y'' \<Longrightarrow>
   dict_get d ''refundable'' \<noteq> PStr ''Y'' \<Longrightarrow>
   decide_refund w self refund (PDict d) v =
     (None, v\<lparr>message := Some ''The refund cannot be processed at this time.'',
               http_status_code := 409,
               transaction_id := PStr (r_paymentTransactionId refund)\<rparr>)"
  by (simp add: decide_refund_def Let_def)

lemma calls_distinct:
  "void_call self refund \<noteq> refund_call self refund"
  "refund_call self refund \<noteq> void_call self refund"
  "void_call self refund \<noteq> inquire_call w self refund"
  "refund_call self refund \<noteq> inquire_call w self refund"
  by (simp_all add: void_call_def refund_call_def inquire_call_def void_data_def refund_data_def)

lemma cc_refund_calls:
  "snd (CardConnect_process_refund w self refund) =
     issued (snd (try_except_Exception (process_refund_try w self refund cc_initial)
                    (process_refund_except w refund)))"
  by (simp add: CardConnect_process_refund_def cc_return_caught)

lemma cc_refund_result:
  "fst (CardConnect_process_refund w self refund) =
     Inr (cc_finally (r_merchantAccountId refund)
            (snd (try_except_Exception (process_refund_try w self refund cc_initial)
                    (process_refund_except w refund))))"
  by (simp add: CardConnect_process_refund_def cc_return_caught)

lemma try_except_Exception_idle:
  "fst body = None \<Longrightarrow> try_except_Exception body handler = body"
  by (cases body) (simp add: try_except_Exception_def)

lemma try_except_Exception_twice:
  "try_except_Exception (try_except_Exception body h1) h2 = try_except_Exception body h1"
  by (simp add: try_except_Exception_idle fst_try_except_Exception)

text \<open>
  Claim C2. When the inquiry answers 200 with a JSON object: if \<open>respstat\<close> is not \<open>A\<close>,
  the result is a failure with status 409 and the original transaction id, and the
  inquiry is the only call; if \<open>respstat\<close> is \<open>A\<close> and \<open>voidable\<close> is \<open>Y\<close>, the void
  call is issued and the refund call is not; if \<open>respstat\<close> is \<open>A\<close>, \<open>voidable\<close> is not
  \<open>Y\<close> and \<open>refundable\<close> is \<open>Y\<close>, the refund call is issued and the void call is not;
  if neither flag is \<open>Y\<close>, the result is a failure with status 409 and the original
  transaction id, and the inquiry is the only call. \<open>voidable\<close> is looked at first.
\<close>

theorem C2_refund_decision:
  assumes "requests w (inquire_call w self refund) = Inr resp"
      and "status_code resp = 200"
      and "json_loads w (resp_text resp) = Inr (PDict d)"
  shows "(dict_get d ''respstat'' \<noteq> PStr ''A'' \<longrightarrow>
            snd (CardConnect_process_refund w self refund) = [inquire_call w self refund] \<and>
            (\<exists>r. fst (CardConnect_process_refund w self refund) = Inr r \<and> \<not> res_success r \<and>
                 res_gatewayHttpStatusCode r = PInt 409 \<and>
                 res_transactionId r = PStr (r_paymentTransactionId refund))) \<and>
         (dict_get d ''respstat'' = PStr ''A'' \<and> dict_get d ''voidable'' = PStr ''Y'' \<longrightarrow>
            snd (CardConnect_process_refund w self refund) =
              [inquire_call w self refund, void_call self refund] \<and>
            refund_call self refund \<notin> set (snd (CardConnect_process_refund w self refund))) \<and>
         (dict_get d ''respstat'' = PStr ''A'' \<and> dict_get d ''voidable'' \<noteq> PStr ''Y'' \<and>
          dict_get d ''refundable'' = PStr ''Y'' \<longrightarrow>
            snd (CardConnect_process_refund w self refund) =
              [inquire_call w self refund, refund_call self refund] \<and>
            void_call self refund \<notin> set (snd (CardConnect_process_refund w self refund))) \<and>
         (dict_get d ''respstat'' = PStr ''A'' \<and> dict_get d ''voidable'' \<noteq> PStr ''Y'' \<and>
          dict_get d ''refundable'' \<noteq> PStr ''Y'' \<longrightarrow>
            snd (CardConnect_process_refund w self refund) = [inquire_call w self refund] \<and>
            (\<exists>r. fst (CardConnect_process_refund w self refund) = Inr r \<and> \<not> res_success r \<and>
                 res_gatewayHttpStatusCode r = PInt 409 \<and>
                 res_transactionId r = PStr (r_paymentTransactionId refund)))"
proof -
  let ?v = "cc_initial\<lparr>issued := issued cc_initial @ [inquire_call w self refund],
              inquiry_resp := Some resp,
              gateway_response_data := gateway_response_data cc_initial @ [PDict d]\<rparr>"
  have body: "process_refund_try w self refund cc_initial = decide_refund w self refund (PDict d) ?v"
    by (rule process_refund_200 [OF assms])
  have start: "issued ?v = [inquire_call w self refund]"
    by (simp add: cc_initial_def)
  have not_approved: ?thesis if "dict_get d ''respstat'' \<noteq> PStr ''A''"
    unfolding cc_refund_calls cc_refund_result body decide_refund_not_approved [OF that]
    using that by (simp add: try_except_Exception_def cc_finally_def cc_initial_def)
  have voidable: ?thesis
    if "dict_get d ''respstat'' = PStr ''A''" "dict_get d ''voidable'' = PStr ''Y''"
  proof -
    have "snd (CardConnect_process_refund w self refund) =
            [inquire_call w self refund, void_call self refund]"
      by (simp only: cc_refund_calls body decide_refund_voidable [OF that]
          try_except_Exception_twice issued_void_path start append.simps)
    moreover have "refund_call self refund \<notin> set [inquire_call w self refund, void_call self refund]"
      by (simp add: calls_distinct)
    ultimately show ?thesis
      using that by simp
  qed
  have refundable: ?thesis
    if "dict_get d ''respstat'' = PStr ''A''" "dict_get d ''voidable'' \<noteq> PStr ''Y''"
       "dict_get d ''refundable'' = PStr ''Y''"
  proof -
    have "snd (CardConnect_process_refund w self refund) =
            [inquire_call w self refund, refund_call self refund]"
      by (simp only: cc_refund_calls body decide_refund_refundable [OF that]
          try_except_Exception_twice issued_refund_path start append.simps)
    moreover have "void_call self refund \<notin> set [inquire_call w self refund, refund_call self refund]"
      by (simp add: calls_distinct)
    ultimately show ?thesis
      using that by simp
  qed
  have neither: ?thesis
    if "dict_get d ''respstat'' = PStr ''A''" "dict_get d ''voidable'' \<noteq> PStr ''Y''"
       "dict_get d ''refundable'' \<noteq> PStr ''Y''"
    unfolding cc_refund_calls cc_refund_result body decide_refund_neither [OF that]
    using that by (simp add: try_except_Exception_def cc_finally_def cc_initial_def)
  show ?thesis
    using not_approved voidable refundable neither by blast
qed


theorem C2_refund_decision_witness:
  "snd (CardConnect_process_refund
          (refund_world 200 [(''respstat'', PStr ''A''), (''voidable'', PStr ''Y''),
                             (''refundable'', PStr ''N'')]
             200 [(''respstat'', PStr ''A''), (''authcode'', PStr ''REVERS''),
                  (''retref'', PStr ''998877'')])
          example_cc example_refund) =
     [GET inquire_url example_auth,
      POST ''https://host/cardconnect/rest/void''
        (PDict [(''retref'', PStr ''112233''), (''merchid'', PStr ''496160873888'')])
        example_auth]"
proof -
  let ?d = "[(''respstat'', PStr ''A''), (''voidable'', PStr ''Y''), (''refundable'', PStr ''N'')]"
  let ?w = "refund_world 200 ?d 200 [(''respstat'', PStr ''A''), (''authcode'', PStr ''REVERS''),
                                     (''retref'', PStr ''998877'')]"
  let ?resp = "\<lparr>status_code = 200, resp_text = ''<inquiry body>''\<rparr>"
  have call: "inquire_call ?w example_cc example_refund = GET inquire_url example_auth"
    by (simp add: inquire_call_def example_cc_def example_refund_def inquire_url_def py_str_def
        example_auth_def)
  have req: "requests ?w (inquire_call ?w example_cc example_refund) = Inr ?resp"
    unfolding call by (simp add: refund_world_def example_world_def http_by_url_def)
  have st: "status_code ?resp = 200"
    by simp
  have js: "json_loads ?w (resp_text ?resp) = Inr (PDict ?d)"
    by (simp add: refund_world_def example_world_def decode_by_text_def)
  from C2_refund_decision [OF req st js] show ?thesis
    unfolding call
    by (simp add: dict_get_def void_call_def void_data_def example_cc_def example_refund_def
        example_auth_def)
qed

lemma interpret_void_declined_raises:
  assumes "dict_get d ''respstat'' \<noteq> PStr ''A''" and "dict_get d ''respstat'' \<noteq> PStr ''B''"
      and "map_of d ''resptext'' = Some t"
      and "message v = None"
  shows "interpret_void w (PDict d) v =
         (Some (TypeError (''unsupported operand type(s) for +=: '' @ quoted ''NoneType'' @
                           '' and '' @ quoted ''str'')), v)"
  using assms by (simp add: interpret_void_def Let_def str_iadd_def)

text \<open>
  Claim C3. A void answer of status 200 whose \<open>respstat\<close> is neither \<open>A\<close> nor \<open>B\<close>
  does not give status 409 with the vendor text: no message is assigned in that branch
  (line 303 is a bare string), so \<open>message += ...\<close> raises on \<open>None\<close> (the lemma above)
  and the handler of the void call answers 500. The run below is a declined void,
  \<open>respstat\<close> \<open>C\<close> with \<open>resptext\<close> and \<open>retref\<close> present.
\<close>

theorem C3_declined_void_is_internal_error:
  "summary (fst (CardConnect_process_refund
                   (refund_world 200 [(''respstat'', PStr ''A''), (''voidable'', PStr ''Y'')]
                      200 [(''respstat'', PStr ''C''), (''resptext'', PStr ''Declined''),
                           (''retref'', PStr ''998877'')])
                   example_cc example_refund)) =
     Some (False, PInt 500,
           PStr ''An unknown error occurred while processing void transaction.'',
           PStr ''112233'')"
  by (simp add: summary_def CardConnect_process_refund_def cc_return_def
      try_except_Exception_caught process_refund_try_def inquire_call_def example_cc_def
      example_refund_def py_str_def refund_world_def example_world_def http_by_url_def
      decode_by_text_def inquire_url_def decide_refund_def dict_get_def void_try_def
      void_call_def void_data_def interpret_void_def str_iadd_def void_except_def
      cc_finally_def cc_initial_def opt_str_def Let_def)




section \<open>Payload: the comment\<close>

lemma pl_payment_calls:
  "p_comment payment = Some c \<Longrightarrow>
   snd (Payload_process_payment w self payment) =
     [Payment_create (p_amount payment) (payment_card payment) (processing_id self)
        (PStr (take 128 c))]"
  by (simp add: Payload_process_payment_def pl_return_def pl_payment_try_def slice_128_def
      pl_initial_def Let_def split: sum.splits)

lemma pl_refund_calls:
  "snd (Payload_process_refund w self refund) = pl_issued (snd (pl_refund_try w self refund pl_initial))"
  by (cases "pl_refund_try w self refund pl_initial")
     (simp add: Payload_process_refund_def pl_return_def split: option.splits)

lemma pl_refund_descriptions:
  assumes "r_comment refund = Some c"
  shows "\<forall>call \<in> set (pl_issued (snd (pl_refund_try w self refund pl_initial))).
           description_of call \<in> {None, Some (PStr (take 128 c))}"
  using assms
  by (simp add: pl_refund_try_def slice_128_def pl_initial_def pl_refund_done_def Let_def
      split: sum.splits)

lemma pl_refund_pending:
  assumes "r_comment refund = Some c"
      and "payload_api w (Payment_get (r_paymentTransactionId refund)) = Inr ob"
      and "obj_status ob \<noteq> PStr ''voided''"
      and "obj_funding_status ob = PStr ''pending''"
      and "payload_api w (Transaction_get (r_paymentTransactionId refund)) = Inr t"
  shows "pl_issued (snd (pl_refund_try w self refund pl_initial)) =
           [Payment_get (r_paymentTransactionId refund),
            Transaction_get (r_paymentTransactionId refund),
            Transaction_update t ''voided'' (PStr (take 128 c))]"
  using assms
  by (simp add: pl_refund_try_def slice_128_def pl_initial_def pl_refund_done_def Let_def
      split: sum.splits)

lemma pl_refund_batched:
  assumes "r_comment refund = Some c"
      and "payload_api w (Payment_get (r_paymentTransactionId refund)) = Inr ob"
      and "obj_status ob \<noteq> PStr ''voided''"
      and "obj_funding_status ob = PStr ''batched''"
  shows "pl_issued (snd (pl_refund_try w self refund pl_initial)) =
           [Payment_get (r_paymentTransactionId refund),
            Refund_create (obj_amount ob) (r_paymentTransactionId refund) (PStr (take 128 c))]"
  using assms
  by (simp add: pl_refund_try_def slice_128_def pl_initial_def pl_refund_done_def Let_def
      split: sum.splits)

text \<open>
  Claim C7. When the comment of a Payload request is a string, the description that goes
  upstream is exactly its first 128 units: in the one call of \<open>process_payment\<close>, and in
  every call of \<open>process_refund\<close> that carries a description, which is the status update
  of the void when the payment is pending and the refund creation when it is batched. No
  call carries more than 128 units of the comment.
\<close>

theorem C7_payload_truncation:
  assumes "p_comment payment = Some c" and "r_comment refund = Some c'"
  shows "snd (Payload_process_payment w self payment) =
           [Payment_create (p_amount payment) (payment_card payment) (processing_id self)
              (PStr (take 128 c))] \<and>
         (\<forall>call \<in> set (snd (Payload_process_refund w self refund)).
            description_of call \<in> {None, Some (PStr (take 128 c'))}) \<and>
         (\<forall>ob t. payload_api w (Payment_get (r_paymentTransactionId refund)) = Inr ob \<and>
                 obj_status ob \<noteq> PStr ''voided'' \<and>
                 obj_funding_status ob = PStr ''pending'' \<and>
                 payload_api w (Transaction_get (r_paymentTransactionId refund)) = Inr t \<longrightarrow>
                 snd (Payload_process_refund w self refund) =
                   [Payment_get (r_paymentTransactionId refund),
                    Transaction_get (r_paymentTransactionId refund),
                    Transaction_update t ''voided'' (PStr (take 128 c'))]) \<and>
         (\<forall>ob. payload_api w (Payment_get (r_paymentTransactionId refund)) = Inr ob \<and>
               obj_status ob \<noteq> PStr ''voided'' \<and>
               obj_funding_status ob = PStr ''batched'' \<longrightarrow>
               snd (Payload_process_refund w self refund) =
                 [Payment_get (r_paymentTransactionId refund),
                  Refund_create (obj_amount ob) (r_paymentTransactionId refund)
                    (PStr (take 128 c'))]) \<and>
         length (take 128 c) \<le> 128 \<and> length (take 128 c') \<le> 128"
  using pl_payment_calls [OF assms(1)] pl_refund_descriptions [OF assms(2)]
    pl_refund_pending [OF assms(2)] pl_refund_batched [OF assms(2)]
  unfolding pl_refund_calls by simp

theorem C7_payload_truncation_witness:
  "snd (Payload_process_payment (sdk_world ''pending'') example_pl
          (example_payment\<lparr>p_comment := Some (replicate 200 CHR ''x'')\<rparr>)) =
     [Payment_create 10
        \<lparr>account_holder = PNone, card_number = PStr ''4788250000121443'',
         expiry = PStr ''12/25'', card_code = PStr ''123''\<rparr>
        (PStr ''acct_1'') (PStr (replicate 128 CHR ''x''))] \<and>
   snd (Payload_process_refund (sdk_world ''pending'') example_pl
          (example_refund\<lparr>r_comment := Some (replicate 200 CHR ''y'')\<rparr>)) =
     [Payment_get ''112233'', Transaction_get ''112233'',
      Transaction_update example_object ''voided'' (PStr (replicate 128 CHR ''y''))] \<and>
   snd (Payload_process_refund (sdk_world ''batched'') example_pl
          (example_refund\<lparr>r_comment := Some (replicate 200 CHR ''y'')\<rparr>)) =
     [Payment_get ''112233'',
      Refund_create (PFloat 10) ''112233'' (PStr (replicate 128 CHR ''y''))]"
proof -
  let ?p = "example_payment\<lparr>p_comment := Some (replicate 200 CHR ''x'')\<rparr>"
  let ?r = "example_refund\<lparr>r_comment := Some (replicate 200 CHR ''y'')\<rparr>"
  have p: "p_comment ?p = Some (replicate 200 CHR ''x'')"
    by simp
  have r: "r_comment ?r = Some (replicate 200 CHR ''y'')"
    by simp
  have id: "r_paymentTransactionId ?r = ''112233''"
    by (simp add: example_refund_def)
  have pending:
    "payload_api (sdk_world ''pending'') (Payment_get ''112233'') = Inr example_object"
    "payload_api (sdk_world ''pending'') (Transaction_get ''112233'') = Inr example_object"
    by (simp_all add: sdk_world_def example_world_def example_sdk_def example_object_def)
  have batched:
    "payload_api (sdk_world ''batched'') (Payment_get ''112233'') =
       Inr (example_object\<lparr>obj_funding_status := PStr ''batched''\<rparr>)"
    by (simp add: sdk_world_def example_world_def example_sdk_def)
  have obj: "obj_status example_object \<noteq> PStr ''voided''"
    "obj_funding_status example_object = PStr ''pending''"
    "obj_amount example_object = PFloat 10"
    by (simp_all add: example_object_def)
  from C7_payload_truncation [OF p r, of "sdk_world ''pending'' " example_pl]
    C7_payload_truncation [OF p r, of "sdk_world ''batched'' " example_pl]
  show ?thesis
    unfolding id using pending batched obj
    by (simp add: payment_card_def example_payment_def example_pl_def opt_str_def)
qed







section \<open>The endpoints: what is checked before an adapter runs\<close>









end
